theory Spec2Isabelle
  imports Complex_Main "HOL-Library.Char_ord" "HOL-Library.List_Lexorder"
begin

section \<open>KSL keypoint trimming: a model of trim\_sign\_language\_data.py\<close>

text \<open>
  The development follows \<^verbatim>\<open>src/trim_sign_language_data.py\<close> function by function.
  Python exceptions are values of the type \<open>py_exception\<close>; a function that may raise
  returns \<open>py_exception + 'a\<close> with \<open>Inl\<close> for the raised exception.  Numbers are
  Python's: an integer is unbounded, a float is an IEEE binary64 value, and every division,
  product and conversion of \<open>get_frame_range\<close> rounds, overflows and raises as CPython's
  does.
\<close>

subsection \<open>Exceptions\<close>

datatype py_exception =
    ZeroDivisionError
  | TypeError
  | KeyError
  | IndexError
  | ValueError
  | OverflowError
  | JSONDecodeError
  | FileNotFoundError
  | FileExistsError
  | IsADirectoryError
  | NotADirectoryError
  | PermissionError
  | SameFileError

text \<open>
  \<open>str(e)\<close> is rendered by the class name only; CPython's message text is not modelled.
\<close>

fun exception_str :: "py_exception \<Rightarrow> string" where
  "exception_str ZeroDivisionError = ''ZeroDivisionError''"
| "exception_str TypeError = ''TypeError''"
| "exception_str KeyError = ''KeyError''"
| "exception_str IndexError = ''IndexError''"
| "exception_str ValueError = ''ValueError''"
| "exception_str OverflowError = ''OverflowError''"
| "exception_str JSONDecodeError = ''JSONDecodeError''"
| "exception_str FileNotFoundError = ''FileNotFoundError''"
| "exception_str FileExistsError = ''FileExistsError''"
| "exception_str IsADirectoryError = ''IsADirectoryError''"
| "exception_str NotADirectoryError = ''NotADirectoryError''"
| "exception_str PermissionError = ''PermissionError''"
| "exception_str SameFileError = ''SameFileError''"

subsection \<open>JSON values\<close>

text \<open>
  What \<open>json.load\<close> returns.  A number literal without fraction and exponent is a Python
  \<open>int\<close> (\<open>JInt\<close>); a literal with a fraction or an exponent is a \<open>float\<close>, and \<open>JNum r\<close>
  is such a literal of decimal value \<open>r\<close>, read as the float nearest to \<open>r\<close>;
  \<open>json.load\<close> also accepts the literals \<open>NaN\<close>, \<open>Infinity\<close> and \<open>-Infinity\<close>.
\<close>

datatype json =
    JNull
  | JBool bool
  | JInt int
  | JNum rat
  | JNaN
  | JInfinity
  | JNegInfinity
  | JStr string
  | JArr "json list"
  | JObj "(string \<times> json) list"

subsection \<open>Python floats\<close>

text \<open>
  A binary64 value: a finite one is the rational it denotes, the two zeros being one value
  (no operation of \<open>get_frame_range\<close> tells them apart: a division by either raises,
  \<open>int\<close> of either is \<open>0\<close>, and a product with an infinity is \<open>nan\<close> for both).
\<close>

datatype pyfloat = Finite rat | PlusInf | MinusInf | NotANumber

text \<open>\<open>n.bit_length()\<close> of a positive integer.\<close>

function bit_length :: "int \<Rightarrow> int" where
  "bit_length n = (if n \<le> 0 then 0 else 1 + bit_length (n div 2))"
  by pat_completeness auto

termination
  by (relation "measure nat") auto

declare bit_length.simps [simp del]

definition pow2 :: "int \<Rightarrow> rat" where
  "pow2 k = (if 0 \<le> k then of_int (2 ^ nat k) else 1 / of_int (2 ^ nat (- k)))"

text \<open>Rounding to the nearest integer, a tie going to the even one.\<close>

definition round_half_even :: "rat \<Rightarrow> int" where
  "round_half_even x =
     (let f = \<lfloor>x\<rfloor>; d = x - of_int f
      in if d < 1 / 2 then f else if 1 / 2 < d then f + 1 else if even f then f else f + 1)"

text \<open>
  The binary64 value nearest to a rational (round to nearest, ties to even), which is what
  the float operations and the parsing of a literal return.  With \<open>2 ^ e \<le> \<bar>r\<bar> < 2 ^ (e + 1)\<close>
  the spacing of the floats around \<open>r\<close> is \<open>2 ^ (e - 52)\<close>, and \<open>2 ^ (- 1074)\<close> below the
  normal range; a result of \<open>2 ^ 1024\<close> or more is an infinity.
\<close>

definition round_double :: "rat \<Rightarrow> pyfloat" where
  "round_double r =
     (if r = 0 then Finite 0
      else
        let a = \<bar>r\<bar>;
            k = bit_length (fst (quotient_of a)) - bit_length (snd (quotient_of a));
            e = (if pow2 k \<le> a then k else k - 1);
            q = max e (- 1022) - 52;
            n = round_half_even (a / pow2 q)
        in if 1023 < e \<or> (e = 1023 \<and> n = 2 ^ 53)
           then (if 0 < r then PlusInf else MinusInf)
           else Finite (of_int (if 0 < r then n else - n) * pow2 q))"

fun float_sign :: "pyfloat \<Rightarrow> int" where
  "float_sign (Finite r) = (if 0 < r then 1 else if r < 0 then - 1 else 0)"
| "float_sign PlusInf = 1"
| "float_sign MinusInf = - 1"
| "float_sign NotANumber = 0"

definition signed_inf :: "int \<Rightarrow> pyfloat" where
  "signed_inf s = (if s = 0 then NotANumber else if 0 < s then PlusInf else MinusInf)"

text \<open>
  \<open>a * b\<close> on floats: \<open>nan\<close> is absorbing, an infinity times zero is \<open>nan\<close>, and a finite
  product that overflows is an infinity (no exception).
\<close>

fun float_mul :: "pyfloat \<Rightarrow> pyfloat \<Rightarrow> pyfloat" where
  "float_mul NotANumber b = NotANumber"
| "float_mul a NotANumber = NotANumber"
| "float_mul (Finite x) (Finite y) = round_double (x * y)"
| "float_mul a b = signed_inf (float_sign a * float_sign b)"

text \<open>
  \<open>a / b\<close> on floats for a divisor that is not zero (Python raises before dividing by
  zero, see \<open>py_truediv\<close>).
\<close>

fun float_div :: "pyfloat \<Rightarrow> pyfloat \<Rightarrow> pyfloat" where
  "float_div NotANumber b = NotANumber"
| "float_div a NotANumber = NotANumber"
| "float_div (Finite x) (Finite y) = round_double (x / y)"
| "float_div (Finite x) b = Finite 0"
| "float_div a (Finite y) = signed_inf (float_sign a * float_sign (Finite y))"
| "float_div a b = NotANumber"

text \<open>
  The conversion of an \<open>int\<close> operand to \<open>float\<close> (\<open>OverflowError\<close>: int too large to
  convert to float), and \<open>a / b\<close> on two ints, which is the correctly rounded quotient.
\<close>

definition float_of_int :: "int \<Rightarrow> py_exception + pyfloat" where
  "float_of_int n =
     (case round_double (of_int n) of
        Finite r \<Rightarrow> Inr (Finite r)
      | _ \<Rightarrow> Inl OverflowError)"

definition int_truediv :: "int \<Rightarrow> int \<Rightarrow> py_exception + pyfloat" where
  "int_truediv a b =
     (if b = 0 then Inl ZeroDivisionError
      else case round_double (of_int a / of_int b) of
             Finite r \<Rightarrow> Inr (Finite r)
           | _ \<Rightarrow> Inl OverflowError)"

text \<open>
  The number a loaded value is, if any: a \<open>bool\<close> is an \<open>int\<close>; \<open>None\<close>, strings, lists
  and dictionaries are no numbers.
\<close>

fun int_value :: "json \<Rightarrow> int option" where
  "int_value (JInt n) = Some n"
| "int_value (JBool b) = Some (if b then 1 else 0)"
| "int_value v = None"

fun float_value :: "json \<Rightarrow> pyfloat option" where
  "float_value (JNum r) = Some (round_double r)"
| "float_value JNaN = Some NotANumber"
| "float_value JInfinity = Some PlusInf"
| "float_value JNegInfinity = Some MinusInf"
| "float_value v = None"

text \<open>
  \<open>total_frames / duration\<close> for the \<open>int\<close> \<open>total_frames\<close>.  With a float divisor the
  int is converted first, then a zero divisor raises.
\<close>

definition py_truediv :: "int \<Rightarrow> json \<Rightarrow> py_exception + pyfloat" where
  "py_truediv a v =
     (case int_value v of
        Some b \<Rightarrow> int_truediv a b
      | None \<Rightarrow>
          (case float_value v of
             None \<Rightarrow> Inl TypeError
           | Some f \<Rightarrow>
               (case float_of_int a of
                  Inl e \<Rightarrow> Inl e
                | Inr x \<Rightarrow>
                    if f = Finite 0 then Inl ZeroDivisionError else Inr (float_div x f))))"

text \<open>\<open>v * fps\<close> for the float \<open>fps\<close>.\<close>

definition py_mul :: "json \<Rightarrow> pyfloat \<Rightarrow> py_exception + pyfloat" where
  "py_mul v fps =
     (case int_value v of
        Some n \<Rightarrow>
          (case float_of_int n of
             Inl e \<Rightarrow> Inl e
           | Inr x \<Rightarrow> Inr (float_mul x fps))
      | None \<Rightarrow>
          (case float_value v of
             None \<Rightarrow> Inl TypeError
           | Some x \<Rightarrow> Inr (float_mul x fps)))"

text \<open>
  \<open>int(x)\<close> on a float truncates toward zero; it raises \<open>ValueError\<close> on \<open>nan\<close> and
  \<open>OverflowError\<close> on an infinity.
\<close>

fun py_int :: "pyfloat \<Rightarrow> py_exception + int" where
  "py_int (Finite r) = Inr (if 0 \<le> r then \<lfloor>r\<rfloor> else \<lceil>r\<rceil>)"
| "py_int NotANumber = Inl ValueError"
| "py_int PlusInf = Inl OverflowError"
| "py_int MinusInf = Inl OverflowError"

subsection \<open>Frame Range Calculator\<close>

text \<open>
  \<^verbatim>\<open>
  def get_frame_range(start_time, end_time, duration, total_frames, offset=10):
      fps = total_frames / duration
      start_frame = int(start_time * fps) - offset
      end_frame = int(end_time * fps) + offset
      start_frame = max(0, start_frame)
      end_frame = min(total_frames - 1, end_frame)
      return start_frame, end_frame
  \<close>
  The three times are the values loaded from the metadata file, whatever they are;
  \<open>total_frames\<close> and \<open>offset\<close> are ints.  The statements run in this order, so the first
  one that raises decides the exception.
\<close>

definition get_frame_range ::
  "json \<Rightarrow> json \<Rightarrow> json \<Rightarrow> int \<Rightarrow> int \<Rightarrow> py_exception + (int \<times> int)" where
  "get_frame_range start_time end_time duration total_frames offset =
     (case py_truediv total_frames duration of
        Inl e \<Rightarrow> Inl e
      | Inr fps \<Rightarrow>
          (case py_mul start_time fps of
             Inl e \<Rightarrow> Inl e
           | Inr x \<Rightarrow>
               (case py_int x of
                  Inl e \<Rightarrow> Inl e
                | Inr i \<Rightarrow>
                    (let start_frame = i - offset
                     in (case py_mul end_time fps of
                           Inl e \<Rightarrow> Inl e
                         | Inr y \<Rightarrow>
                             (case py_int y of
                                Inl e \<Rightarrow> Inl e
                              | Inr j \<Rightarrow>
                                  (let end_frame = j + offset;
                                       start_frame = max 0 start_frame;
                                       end_frame = min (total_frames - 1) end_frame
                                   in Inr (start_frame, end_frame))))))))"

text \<open>The default \<open>offset=10\<close> of the signature.\<close>

definition default_offset :: int where
  "default_offset = 10"

subsection \<open>Metadata Reader\<close>

text \<open>
  \<open>x[key]\<close> for a string key.  \<open>json.load\<close> keeps the last of repeated keys of an
  object, hence the lookup in the reversed list.  Indexing a list or a string with a
  string, or subscripting a number, a boolean or \<open>None\<close>, raises \<open>TypeError\<close>.
\<close>

fun getitem_key :: "json \<Rightarrow> string \<Rightarrow> py_exception + json" where
  "getitem_key (JObj kvs) key =
     (case map_of (rev kvs) key of None \<Rightarrow> Inl KeyError | Some v \<Rightarrow> Inr v)"
| "getitem_key v key = Inl TypeError"

text \<open>
  \<open>x[0]\<close>: the first element of a list, the first character of a string; no object
  loaded from JSON has the key \<open>0\<close>.
\<close>

fun getitem_zero :: "json \<Rightarrow> py_exception + json" where
  "getitem_zero (JArr []) = Inl IndexError"
| "getitem_zero (JArr (v # vs)) = Inr v"
| "getitem_zero (JStr []) = Inl IndexError"
| "getitem_zero (JStr (c # cs)) = Inr (JStr [c])"
| "getitem_zero (JObj kvs) = Inl KeyError"
| "getitem_zero v = Inl TypeError"

subsection \<open>Paths\<close>

type_synonym path = string

text \<open>\<open>os.path.basename\<close>, \<open>os.path.dirname\<close> and two-argument \<open>os.path.join\<close> (POSIX).\<close>

definition basename :: "path \<Rightarrow> string" where
  "basename p = rev (takeWhile (\<lambda>c. c \<noteq> CHR ''/'') (rev p))"

definition dirname :: "path \<Rightarrow> path" where
  "dirname p =
     (let head = rev (dropWhile (\<lambda>c. c \<noteq> CHR ''/'') (rev p))
      in if list_all (\<lambda>c. c = CHR ''/'') head then head
         else rev (dropWhile (\<lambda>c. c = CHR ''/'') (rev head)))"

definition path_join :: "path \<Rightarrow> string \<Rightarrow> path" where
  "path_join a b =
     (if b \<noteq> [] \<and> hd b = CHR ''/'' then b
      else if a = [] \<or> last a = CHR ''/'' then a @ b
      else a @ ''/'' @ b)"

subsection \<open>The file system\<close>

text \<open>
  A file is abstracted to the JSON value its bytes parse to (\<open>None\<close>: the bytes are not
  JSON).  The nodes are kept in one list of full paths whose order is the order in which
  the operating system lists them; a path names a node through its exact spelling.
  \<open>readonly\<close> holds the directories in which no entry may be created.  The current
  directory (the empty path) and the root always exist.
\<close>

datatype node = Dir | File "json option"

record filesystem =
  entries :: "(path \<times> node) list"
  readonly :: "path list"

definition lookup :: "filesystem \<Rightarrow> path \<Rightarrow> node option" where
  "lookup fs p = map_of (entries fs) p"

definition dir_exists :: "filesystem \<Rightarrow> path \<Rightarrow> bool" where
  "dir_exists fs p = (p = [] \<or> p = ''/'' \<or> lookup fs p = Some Dir)"

definition path_exists :: "filesystem \<Rightarrow> path \<Rightarrow> bool" where
  "path_exists fs p = (p = [] \<or> p = ''/'' \<or> lookup fs p \<noteq> None)"

text \<open>The names in a directory, in listing order.\<close>

definition listdir :: "filesystem \<Rightarrow> path \<Rightarrow> string list" where
  "listdir fs d =
     map basename
       (filter (\<lambda>p. dirname p = d \<and> basename p \<noteq> []) (map fst (entries fs)))"

text \<open>
  \<open>fnmatch\<close> on one name: \<open>*\<close> matches any run of characters, \<open>?\<close> any one
  character.  Bracket expressions are not modelled (a \<open>[\<close> is an ordinary character):
  the patterns of this program are built from folder-name tokens, letters and digits in
  the dataset layout.
\<close>

fun fnmatch :: "string \<Rightarrow> string \<Rightarrow> bool" where
  "fnmatch [] [] = True"
| "fnmatch (c # cs) [] = False"
| "fnmatch [] (p # ps) = (p = CHR ''*'' \<and> fnmatch [] ps)"
| "fnmatch (c # cs) (p # ps) =
     (if p = CHR ''*'' then fnmatch (c # cs) ps \<or> fnmatch cs (p # ps)
      else (p = CHR ''?'' \<or> p = c) \<and> fnmatch cs ps)"

text \<open>
  \<open>glob.glob(pathname)\<close> for a pathname whose directory part is literal and whose last
  component is a pattern: the entries of the directory, in listing order, whose name
  matches; a name starting with a dot matches only a pattern starting with a dot.  The
  result is empty when the directory does not exist.
\<close>

definition glob_selects :: "string \<Rightarrow> string \<Rightarrow> bool" where
  "glob_selects pat name =
     (fnmatch name pat \<and> (if take 1 name = ''.'' then take 1 pat = ''.'' else True))"

definition glob :: "filesystem \<Rightarrow> string \<Rightarrow> path list" where
  "glob fs pathname =
     (let d = dirname pathname; pat = basename pathname
      in if dir_exists fs d then map (path_join d) (filter (glob_selects pat) (listdir fs d))
         else [])"

text \<open>\<open>os.mkdir\<close>.\<close>

definition mkdir :: "filesystem \<Rightarrow> path \<Rightarrow> (py_exception + unit) \<times> filesystem" where
  "mkdir fs p =
     (if path_exists fs p then (Inl FileExistsError, fs)
      else if \<not> path_exists fs (dirname p) then (Inl FileNotFoundError, fs)
      else if \<not> dir_exists fs (dirname p) then (Inl NotADirectoryError, fs)
      else if dirname p \<in> set (readonly fs) then (Inl PermissionError, fs)
      else (Inr (), fs\<lparr>entries := entries fs @ [(p, Dir)]\<rparr>))"

text \<open>
  The last step of \<open>os.makedirs(name, exist_ok=True)\<close>: \<open>mkdir\<close>, whose failure is
  ignored when \<open>name\<close> is a directory already.
\<close>

definition mkdir_exist_ok :: "filesystem \<Rightarrow> path \<Rightarrow> (py_exception + unit) \<times> filesystem" where
  "mkdir_exist_ok fs name =
     (case mkdir fs name of
        (Inr u, fs') \<Rightarrow> (Inr (), fs')
      | (Inl e, fs') \<Rightarrow> if lookup fs' name = Some Dir then (Inr (), fs') else (Inl e, fs'))"

text \<open>
  \<open>os.makedirs(name, exist_ok=True)\<close> for a name with no trailing slash: the missing
  ancestors are created first, a \<open>FileExistsError\<close> of that recursive call is passed
  over, every other exception propagates.  The components \<open>.\<close> and \<open>..\<close> of a path are
  not interpreted.
\<close>

function makedirs :: "filesystem \<Rightarrow> path \<Rightarrow> (py_exception + unit) \<times> filesystem" where
  "makedirs fs name =
     (if dirname name \<noteq> [] \<and> basename name \<noteq> [] \<and> \<not> path_exists fs (dirname name) then
        (case makedirs fs (dirname name) of
           (Inl e, fs1) \<Rightarrow>
             if e = FileExistsError then mkdir_exist_ok fs1 name else (Inl e, fs1)
         | (Inr u, fs1) \<Rightarrow> mkdir_exist_ok fs1 name)
      else mkdir_exist_ok fs name)"
  by pat_completeness auto

termination makedirs
proof (relation "measure (\<lambda>(fs, name). length name)")
  show "wf (measure (\<lambda>(fs, name). length name))" by simp
next
  fix fs :: filesystem and name :: path
  assume guard:
    "dirname name \<noteq> [] \<and> basename name \<noteq> [] \<and> \<not> path_exists fs (dirname name)"
  let ?head = "rev (dropWhile (\<lambda>c. c \<noteq> CHR ''/'') (rev name))"
  have split: "length ?head + length (basename name) = length name"
    unfolding basename_def
    by (metis length_append length_rev takeWhile_dropWhile_id add.commute)
  have "length (dirname name) \<le> length ?head"
    unfolding dirname_def Let_def
    by (simp add: length_dropWhile_le order.trans [OF length_dropWhile_le])
  with split guard have "length (dirname name) < length name"
    by (cases "basename name") auto
  then show "((fs, dirname name), (fs, name)) \<in> measure (\<lambda>(fs, name). length name)"
    by simp
qed

text \<open>The equation of \<open>makedirs\<close> is recursive without a pattern: it is unfolded by hand.\<close>

declare makedirs.simps [simp del]

text \<open>
  \<open>shutil.copy2(src, dst)\<close>: a destination that is a directory receives the file under
  the source's base name; the content is copied as it is.  Copying a file onto itself,
  from a directory, onto a directory, or into a directory that is missing or read-only
  raises.
\<close>

definition copy2 :: "filesystem \<Rightarrow> path \<Rightarrow> path \<Rightarrow> (py_exception + unit) \<times> filesystem" where
  "copy2 fs src dst0 =
     (let dst = (if lookup fs dst0 = Some Dir then path_join dst0 (basename src) else dst0)
      in case lookup fs src of
           None \<Rightarrow> (Inl FileNotFoundError, fs)
         | Some Dir \<Rightarrow> (Inl IsADirectoryError, fs)
         | Some (File content) \<Rightarrow>
             if dst = src then (Inl SameFileError, fs)
             else
               (case lookup fs dst of
                  Some Dir \<Rightarrow> (Inl IsADirectoryError, fs)
                | Some (File old) \<Rightarrow>
                    (Inr (),
                     fs\<lparr>entries :=
                          map (\<lambda>(p, n). if p = dst then (p, File content) else (p, n))
                            (entries fs)\<rparr>)
                | None \<Rightarrow>
                    if \<not> dir_exists fs (dirname dst) then (Inl FileNotFoundError, fs)
                    else if dirname dst \<in> set (readonly fs) then (Inl PermissionError, fs)
                    else (Inr (), fs\<lparr>entries := entries fs @ [(dst, File content)]\<rparr>)))"

text \<open>
  \<^verbatim>\<open>
  def load_morpheme_data(morpheme_path):
      with open(morpheme_path, 'r', encoding='utf-8') as f:
          data = json.load(f)
      start_time = data['data'][0]['start']
      end_time = data['data'][0]['end']
      duration = data['metaData']['duration']
      return start_time, end_time, duration
  \<close>
  \<open>open\<close> raises on a missing file or a directory, \<open>json.load\<close> on bytes that are not
  JSON, each subscript on a missing key, an empty list or a value of the wrong type.
  \<open>data['data'][0]\<close> is evaluated twice in the source, with the same result.
\<close>

definition load_morpheme_data ::
  "filesystem \<Rightarrow> path \<Rightarrow> py_exception + (json \<times> json \<times> json)" where
  "load_morpheme_data fs morpheme_path =
     (case lookup fs morpheme_path of
        None \<Rightarrow> Inl FileNotFoundError
      | Some Dir \<Rightarrow> Inl IsADirectoryError
      | Some (File None) \<Rightarrow> Inl JSONDecodeError
      | Some (File (Some data)) \<Rightarrow>
          (case getitem_key data ''data'' of Inl e \<Rightarrow> Inl e | Inr d \<Rightarrow>
          (case getitem_zero d of Inl e \<Rightarrow> Inl e | Inr d0 \<Rightarrow>
          (case getitem_key d0 ''start'' of Inl e \<Rightarrow> Inl e | Inr start_time \<Rightarrow>
          (case getitem_key d0 ''end'' of Inl e \<Rightarrow> Inl e | Inr end_time \<Rightarrow>
          (case getitem_key data ''metaData'' of Inl e \<Rightarrow> Inl e | Inr m \<Rightarrow>
          (case getitem_key m ''duration'' of Inl e \<Rightarrow> Inl e | Inr duration \<Rightarrow>
             Inr (start_time, end_time, duration))))))))"

subsection \<open>Strings\<close>

text \<open>\<open>s.startswith(pre)\<close>, \<open>sub in s\<close>, \<open>s.split(sep)\<close> for a one-character separator, and \<open>sep.join(parts)\<close>.\<close>

definition startswith :: "string \<Rightarrow> string \<Rightarrow> bool" where
  "startswith s pre = (take (length pre) s = pre)"

fun contains :: "string \<Rightarrow> string \<Rightarrow> bool" where
  "contains sub [] = (sub = [])"
| "contains sub (c # cs) = (startswith (c # cs) sub \<or> contains sub cs)"

fun split_str :: "char \<Rightarrow> string \<Rightarrow> string list" where
  "split_str sep [] = [[]]"
| "split_str sep (c # cs) =
     (if c = sep then [] # split_str sep cs
      else (case split_str sep cs of
              [] \<Rightarrow> [[c]]
            | part # parts \<Rightarrow> (c # part) # parts))"

fun join_str :: "string \<Rightarrow> string list \<Rightarrow> string" where
  "join_str sep [] = []"
| "join_str sep [part] = part"
| "join_str sep (part # parts) = part @ sep @ join_str sep parts"

text \<open>The decimal digits of a natural number, and \<open>f"{i:012d}"\<close> for \<open>i \<ge> 0\<close>.\<close>

fun decimal :: "nat \<Rightarrow> string" where
  "decimal n =
     (if n < 10 then [char_of (48 + n)]
      else decimal (n div 10) @ [char_of (48 + n mod 10)])"

definition format_012d :: "nat \<Rightarrow> string" where
  "format_012d i = replicate (12 - length (decimal i)) CHR ''0'' @ decimal i"

text \<open>
  \<open>xs[i]\<close> for a list and an integer: an index from \<open>-len(xs)\<close> to \<open>-1\<close> counts from
  the end, an index outside \<open>-len(xs) \<dots> len(xs) - 1\<close> raises \<open>IndexError\<close>.
\<close>

definition getitem_index :: "'a list \<Rightarrow> int \<Rightarrow> py_exception + 'a" where
  "getitem_index xs i =
     (if 0 \<le> i \<and> i < int (length xs) then Inr (xs ! nat i)
      else if i < 0 \<and> - int (length xs) \<le> i then Inr (xs ! nat (int (length xs) + i))
      else Inl IndexError)"

text \<open>\<open>parts[-2] = v\<close>.\<close>

definition setitem_minus2 :: "'a list \<Rightarrow> 'a \<Rightarrow> py_exception + 'a list" where
  "setitem_minus2 parts v =
     (if length parts < 2 then Inl IndexError else Inr (parts[length parts - 2 := v]))"

subsection \<open>Result dictionaries\<close>

text \<open>
  \<open>process_sign_folder\<close> returns a dictionary; it is kept as the list of its items in
  insertion order, \<open>map_of\<close> being the lookup.
\<close>

datatype pyval = VBool bool | VStr string | VInt int | VJson json

type_synonym result = "(string \<times> pyval) list"

text \<open>The truth value of \<open>d.get(key)\<close>: a missing key gives \<open>None\<close>, which is false.\<close>

fun json_truthy :: "json \<Rightarrow> bool" where
  "json_truthy JNull = False"
| "json_truthy (JBool b) = b"
| "json_truthy (JInt n) = (n \<noteq> 0)"
| "json_truthy (JNum r) = (round_double r \<noteq> Finite 0)"
| "json_truthy JNaN = True"
| "json_truthy JInfinity = True"
| "json_truthy JNegInfinity = True"
| "json_truthy (JStr s) = (s \<noteq> [])"
| "json_truthy (JArr vs) = (vs \<noteq> [])"
| "json_truthy (JObj kvs) = (kvs \<noteq> [])"

fun truthy :: "pyval option \<Rightarrow> bool" where
  "truthy None = False"
| "truthy (Some (VBool b)) = b"
| "truthy (Some (VStr s)) = (s \<noteq> [])"
| "truthy (Some (VInt i)) = (i \<noteq> 0)"
| "truthy (Some (VJson j)) = json_truthy j"

text \<open>
  The rendering of a value inside an f-string.  Only the values under \<open>'folder'\<close> and
  \<open>'error'\<close> are ever rendered, and they are strings; the rendering of a JSON value is
  not modelled.
\<close>

fun py_str :: "pyval \<Rightarrow> string" where
  "py_str (VStr s) = s"
| "py_str (VBool b) = (if b then ''True'' else ''False'')"
| "py_str (VInt i) = (if i < 0 then ''-'' @ decimal (nat (- i)) else decimal (nat i))"
| "py_str (VJson j) = ''<json>''"

subsection \<open>Folder Identifier\<close>

text \<open>
  \<^verbatim>\<open>
  for part in parts:
      if part.startswith('WORD'):
          word_num = part
      if part in ['F', 'D', 'L', 'R', 'U']:
          view_dir = part
  \<close>
\<close>

fun scan_parts ::
  "string list \<Rightarrow> string option \<times> string option \<Rightarrow> string option \<times> string option" where
  "scan_parts [] acc = acc"
| "scan_parts (part # parts) (word_num, view_dir) =
     scan_parts parts
       (if startswith part ''WORD'' then Some part else word_num,
        if part \<in> set [''F'', ''D'', ''L'', ''R'', ''U''] then Some part else view_dir)"

text \<open>\<open>not x\<close> for a variable that holds \<open>None\<close> or a string.\<close>

fun is_not :: "string option \<Rightarrow> bool" where
  "is_not None = True"
| "is_not (Some s) = (s = [])"

subsection \<open>Folder Processor\<close>

text \<open>
  The call \<open>get_frame_range(start_time, end_time, duration, total_frames)\<close> of line 151,
  on the loaded values and with the default offset.
\<close>

definition call_get_frame_range ::
  "json \<Rightarrow> json \<Rightarrow> json \<Rightarrow> int \<Rightarrow> py_exception + (int \<times> int)" where
  "call_get_frame_range start_time end_time duration total_frames =
     get_frame_range start_time end_time duration total_frames default_offset"

text \<open>
  The copy loop (lines 160--176), \<open>i\<close> and \<open>copied_count\<close> being its counters:
  \<^verbatim>\<open>
  for i, frame_idx in enumerate(range(start_frame, end_frame + 1)):
      src_file = keypoint_files[frame_idx]
      if not dry_run:
          base_name = os.path.basename(src_file)
          parts = base_name.split('_')
          parts[-2] = f"{i:012d}"
          new_name = '_'.join(parts)
          dst_file = os.path.join(output_folder, new_name)
          shutil.copy2(src_file, dst_file)
      copied_count += 1
  \<close>
  An exception leaves the loop with the files copied so far in place.
\<close>

fun copy_frames ::
  "filesystem \<Rightarrow> path list \<Rightarrow> path \<Rightarrow> bool \<Rightarrow> nat \<Rightarrow> int list \<Rightarrow> nat \<Rightarrow>
     (py_exception + nat) \<times> filesystem" where
  "copy_frames fs keypoint_files output_folder dry_run i [] copied_count =
     (Inr copied_count, fs)"
| "copy_frames fs keypoint_files output_folder dry_run i (frame_idx # rest) copied_count =
     (case getitem_index keypoint_files frame_idx of
        Inl e \<Rightarrow> (Inl e, fs)
      | Inr src_file \<Rightarrow>
          if \<not> dry_run then
            (let base_name = basename src_file;
                 parts = split_str CHR ''_'' base_name
             in case setitem_minus2 parts (format_012d i) of
                  Inl e \<Rightarrow> (Inl e, fs)
                | Inr parts' \<Rightarrow>
                    (let new_name = join_str ''_'' parts';
                         dst_file = path_join output_folder new_name
                     in case copy2 fs src_file dst_file of
                          (Inl e, fs') \<Rightarrow> (Inl e, fs')
                        | (Inr u, fs') \<Rightarrow>
                            copy_frames fs' keypoint_files output_folder dry_run (Suc i) rest
                              (copied_count + 1)))
          else
            copy_frames fs keypoint_files output_folder dry_run (Suc i) rest
              (copied_count + 1))"

text \<open>
  The dictionary of a successful run (lines 178--188).
\<close>

definition success_result ::
  "string \<Rightarrow> int \<Rightarrow> int \<Rightarrow> int \<Rightarrow> json \<Rightarrow> json \<Rightarrow> result" where
  "success_result folder_name total_frames start_frame end_frame start_time end_time =
     (let frames_to_keep = end_frame - start_frame + 1
      in [(''success'', VBool True),
          (''folder'', VStr folder_name),
          (''total_frames'', VInt total_frames),
          (''start_frame'', VInt start_frame),
          (''end_frame'', VInt end_frame),
          (''kept_frames'', VInt frames_to_keep),
          (''trimmed_frames'', VInt (total_frames - frames_to_keep)),
          (''start_time'', VJson start_time),
          (''end_time'', VJson end_time)])"

text \<open>
  Lines 150--188 of \<open>process_sign_folder\<close>: the frame range, the output directory, the
  copy loop and the dictionary of statistics.  Nothing here is inside a \<open>try\<close>.
\<close>

definition trim_folder ::
  "filesystem \<Rightarrow> string \<Rightarrow> path list \<Rightarrow> json \<Rightarrow> json \<Rightarrow> json \<Rightarrow> path \<Rightarrow> bool \<Rightarrow>
     (py_exception + result) \<times> filesystem" where
  "trim_folder fs folder_name keypoint_files start_time end_time duration output_base dry_run =
     (let total_frames = int (length keypoint_files)
      in case call_get_frame_range start_time end_time duration total_frames of
           Inl e \<Rightarrow> (Inl e, fs)
         | Inr (start_frame, end_frame) \<Rightarrow>
             (let output_folder = path_join output_base folder_name
              in case (if \<not> dry_run then makedirs fs output_folder else (Inr (), fs)) of
                   (Inl e, fs1) \<Rightarrow> (Inl e, fs1)
                 | (Inr u, fs1) \<Rightarrow>
                     (case copy_frames fs1 keypoint_files output_folder dry_run 0
                             [start_frame..end_frame] 0 of
                        (Inl e, fs2) \<Rightarrow> (Inl e, fs2)
                      | (Inr copied_count, fs2) \<Rightarrow>
                          (Inr (success_result folder_name total_frames start_frame end_frame
                                  start_time end_time),
                           fs2))))"

text \<open>
  Lines 124--130: the metadata file is the first element of the list that \<open>glob.glob\<close>
  returns, taken as it comes; \<open>None\<close> stands for the empty list.
  \<^verbatim>\<open>
  morpheme_files = glob.glob(morpheme_pattern)
  if not morpheme_files:
      return {'error': ...}
  morpheme_file = morpheme_files[0]
  \<close>
\<close>

definition find_morpheme_file :: "filesystem \<Rightarrow> string \<Rightarrow> path option" where
  "find_morpheme_file fs morpheme_pattern =
     (case glob fs morpheme_pattern of
        [] \<Rightarrow> None
      | morpheme_file # others \<Rightarrow> Some morpheme_file)"

text \<open>
  Lines 100--148 of \<open>process_sign_folder\<close>: the classification of the folder, the
  metadata file, the frame files and the timing record.  \<open>Inl\<close> is the dictionary of an
  early \<open>return\<close>; \<open>Inr\<close> holds \<open>folder_name\<close>, \<open>keypoint_files\<close>, \<open>start_time\<close>,
  \<open>end_time\<close> and \<open>duration\<close> for the rest of the function.  The only \<open>try\<close> of the
  function is here, around \<open>load_morpheme_data\<close>; no step writes.
\<close>

definition folder_inputs ::
  "filesystem \<Rightarrow> path \<Rightarrow> path \<Rightarrow> result + (string \<times> path list \<times> json \<times> json \<times> json)" where
  "folder_inputs fs keypoint_folder morpheme_folder =
     (let folder_name = basename keypoint_folder
      in if \<not> contains ''_F'' folder_name then
           Inl [(''skipped'', VBool True), (''reason'', VStr ''Not F view'')]
         else
           (let parts = split_str CHR ''_'' folder_name;
                found = scan_parts parts (None, None);
                word_num = fst found;
                view_dir = snd found
            in if is_not word_num \<or> is_not view_dir then
                 Inl [(''error'', VStr (''Cannot parse folder name: '' @ folder_name))]
               else
                 (let morpheme_pattern =
                        path_join morpheme_folder
                          (''NIA_SL_'' @ the word_num @ ''_REAL*_'' @ the view_dir
                             @ ''_morpheme.json'')
                  in case find_morpheme_file fs morpheme_pattern of
                       None \<Rightarrow>
                         Inl [(''error'',
                               VStr (''Morpheme file not found with pattern: ''
                                       @ morpheme_pattern))]
                     | Some morpheme_file \<Rightarrow>
                         (let keypoint_files =
                                sort (glob fs (path_join keypoint_folder ''*_keypoints.json''));
                              total_frames = length keypoint_files
                          in if total_frames = 0 then
                               Inl [(''error'', VStr ''No keypoint files found'')]
                             else
                               (case load_morpheme_data fs morpheme_file of
                                  Inl e \<Rightarrow>
                                    Inl [(''error'',
                                          VStr (''Error loading morpheme data: ''
                                                  @ exception_str e))]
                                | Inr (start_time, end_time, duration) \<Rightarrow>
                                    Inr (folder_name, keypoint_files, start_time, end_time,
                                         duration))))))"

text \<open>\<open>process_sign_folder\<close>: lines 100--148, then lines 150--188.\<close>

definition process_sign_folder ::
  "filesystem \<Rightarrow> path \<Rightarrow> path \<Rightarrow> path \<Rightarrow> bool \<Rightarrow> (py_exception + result) \<times> filesystem" where
  "process_sign_folder fs keypoint_folder morpheme_folder output_base dry_run =
     (case folder_inputs fs keypoint_folder morpheme_folder of
        Inl early \<Rightarrow> (Inr early, fs)
      | Inr (folder_name, keypoint_files, start_time, end_time, duration) \<Rightarrow>
          trim_folder fs folder_name keypoint_files start_time end_time duration output_base
            dry_run)"

subsection \<open>Dataset Orchestrator\<close>

type_synonym task = "path \<times> path \<times> path \<times> bool"

definition process_single_folder_wrapper ::
  "filesystem \<Rightarrow> task \<Rightarrow> (py_exception + result) \<times> filesystem" where
  "process_single_folder_wrapper fs args =
     (case args of
        (keypoint_folder, morpheme_folder, output_folder_base, dry_run) \<Rightarrow>
          process_sign_folder fs keypoint_folder morpheme_folder output_folder_base dry_run)"

text \<open>
  Lines 262--268 and 275 of \<open>process_dataset\<close>: which executor runs the tasks.
  \<open>WorkerPool n\<close> stands for \<open>mp.Pool(n)\<close>; \<open>cpu_count\<close> is the value of
  \<open>mp.cpu_count()\<close>.  How the processes of a pool interleave is not modelled.
\<close>

datatype executor = Sequential | WorkerPool int

definition select_executor :: "bool \<Rightarrow> bool \<Rightarrow> int option \<Rightarrow> int \<Rightarrow> executor" where
  "select_executor use_multiprocessing dry_run num_workers cpu_count =
     (if use_multiprocessing \<and> \<not> dry_run then
        (let num_workers =
               (case num_workers of None \<Rightarrow> max 1 (cpu_count - 1) | Some n \<Rightarrow> n)
         in WorkerPool num_workers)
      else Sequential)"

text \<open>\<open>mp.Pool(processes)\<close> refuses a number of processes below one.\<close>

definition pool_processes :: "int \<Rightarrow> py_exception + nat" where
  "pool_processes processes = (if processes < 1 then Inl ValueError else Inr (nat processes))"

text \<open>
  The sequential loop (lines 277--279): an exception raised by a task ends it.
  \<^verbatim>\<open>
  results = []
  for task in tqdm(all_tasks, ...):
      results.append(process_single_folder_wrapper(task))
  \<close>
\<close>

fun run_sequential ::
  "filesystem \<Rightarrow> task list \<Rightarrow> result list \<Rightarrow> (py_exception + result list) \<times> filesystem" where
  "run_sequential fs [] results = (Inr results, fs)"
| "run_sequential fs (task # tasks) results =
     (case process_single_folder_wrapper fs task of
        (Inl e, fs') \<Rightarrow> (Inl e, fs')
      | (Inr r, fs') \<Rightarrow> run_sequential fs' tasks (results @ [r]))"

text \<open>
  Lines 262--279 of \<open>process_dataset\<close>: the tasks go to the pool or through the sequential
  loop.  \<open>PoolRun n tasks\<close> stands for \<open>pool.imap(process_single_folder_wrapper, tasks)\<close> on
  \<open>mp.Pool(n)\<close>, whose run is not modelled; \<open>SequentialRun\<close> holds what the loop leaves.
  Every task carries the \<open>dry_run\<close> of the call (line 257).
\<close>

datatype run =
    SequentialRun "(py_exception + result list) \<times> filesystem"
  | PoolRun int "task list"

definition process_tasks ::
  "filesystem \<Rightarrow> bool \<Rightarrow> bool \<Rightarrow> int option \<Rightarrow> int \<Rightarrow> (path \<times> path \<times> path) list \<Rightarrow> run" where
  "process_tasks fs use_multiprocessing dry_run num_workers cpu_count folders =
     (let all_tasks =
            map (\<lambda>(keypoint_folder, morpheme_folder, output_folder_base).
                   (keypoint_folder, morpheme_folder, output_folder_base, dry_run)) folders
      in case select_executor use_multiprocessing dry_run num_workers cpu_count of
           WorkerPool n \<Rightarrow> PoolRun n all_tasks
         | Sequential \<Rightarrow> SequentialRun (run_sequential fs all_tasks []))"

text \<open>
  The collection loop (lines 282--293).
  \<^verbatim>\<open>
  for result in results:
      if result.get('skipped'):
          skip_count += 1
      elif result.get('error'):
          error_count += 1
          folder_name = result.get('folder', 'Unknown')
          error_msg = f"{folder_name}: {result['error']}"
          error_list.append(error_msg)
      elif result.get('success'):
          success_count += 1
          all_stats.append(result)
  \<close>
  In the \<open>elif\<close> branch of an error the key \<open>'error'\<close> is present, so \<open>result['error']\<close>
  does not raise.
\<close>

record summary =
  all_stats :: "result list"
  success_count :: nat
  skip_count :: nat
  error_count :: nat
  error_list :: "string list"

definition empty_summary :: summary where
  "empty_summary =
     \<lparr>all_stats = [], success_count = 0, skip_count = 0, error_count = 0, error_list = []\<rparr>"

definition dict_get :: "result \<Rightarrow> string \<Rightarrow> pyval \<Rightarrow> pyval" where
  "dict_get d key dflt = (case map_of d key of None \<Rightarrow> dflt | Some v \<Rightarrow> v)"

fun collect_results :: "result list \<Rightarrow> summary \<Rightarrow> summary" where
  "collect_results [] acc = acc"
| "collect_results (result # results) acc =
     collect_results results
       (if truthy (map_of result ''skipped'') then
          acc\<lparr>skip_count := skip_count acc + 1\<rparr>
        else if truthy (map_of result ''error'') then
          (let folder_name = dict_get result ''folder'' (VStr ''Unknown'');
               error_msg =
                 py_str folder_name @ '': '' @ py_str (dict_get result ''error'' (VStr []))
           in acc\<lparr>error_count := error_count acc + 1,
                  error_list := error_list acc @ [error_msg]\<rparr>)
        else if truthy (map_of result ''success'') then
          acc\<lparr>success_count := success_count acc + 1, all_stats := all_stats acc @ [result]\<rparr>
        else acc)"

subsection \<open>Example datasets\<close>

text \<open>
  A metadata file with the consumed fields only, and a dataset of one Front-view folder
  \<open>k/WORD1_F\<close> with two frames (listed in reverse order) and its metadata file in \<open>m\<close>.
\<close>

definition morpheme_json :: "rat \<Rightarrow> rat \<Rightarrow> rat \<Rightarrow> json" where
  "morpheme_json s e d =
     JObj [(''data'', JArr [JObj [(''start'', JNum s), (''end'', JNum e)]]),
           (''metaData'', JObj [(''duration'', JNum d)])]"

definition example_fs :: "rat \<Rightarrow> rat \<Rightarrow> rat \<Rightarrow> filesystem" where
  "example_fs s e d =
     \<lparr>entries =
        [(''k'', Dir),
         (''k/WORD1_F'', Dir),
         (''k/WORD1_F/x_1_keypoints.json'', File (Some (JNum 1))),
         (''k/WORD1_F/x_0_keypoints.json'', File (Some (JNum 0))),
         (''m'', Dir),
         (''m/NIA_SL_WORD1_REAL1_F_morpheme.json'', File (Some (morpheme_json s e d)))],
      readonly = []\<rparr>"

text \<open>
  Two metadata files match the pattern of \<open>WORD1_F\<close>; the directory lists \<open>REAL2\<close> before
  \<open>REAL1\<close> in the first dataset and after it in the second.
\<close>

definition two_matches_fs :: filesystem where
  "two_matches_fs =
     \<lparr>entries =
        [(''k'', Dir),
         (''k/WORD1_F'', Dir),
         (''k/WORD1_F/x_0_keypoints.json'', File (Some (JNum 0))),
         (''m'', Dir),
         (''m/NIA_SL_WORD1_REAL2_F_morpheme.json'', File (Some (morpheme_json 1 2 2))),
         (''m/NIA_SL_WORD1_REAL1_F_morpheme.json'', File (Some (morpheme_json 0 1 1)))],
      readonly = []\<rparr>"

definition two_matches_fs_relisted :: filesystem where
  "two_matches_fs_relisted =
     \<lparr>entries =
        [(''k'', Dir),
         (''k/WORD1_F'', Dir),
         (''k/WORD1_F/x_0_keypoints.json'', File (Some (JNum 0))),
         (''m'', Dir),
         (''m/NIA_SL_WORD1_REAL1_F_morpheme.json'', File (Some (morpheme_json 0 1 1))),
         (''m/NIA_SL_WORD1_REAL2_F_morpheme.json'', File (Some (morpheme_json 1 2 2)))],
      readonly = []\<rparr>"

text \<open>
  The dataset \<open>example_fs 20 0 1\<close> (its kept range is empty) with an output directory left
  by an earlier run, one file in it.
\<close>

definition stale_output_fs :: filesystem where
  "stale_output_fs =
     \<lparr>entries =
        entries (example_fs 20 0 1) @
        [(''out'', Dir),
         (''out/WORD1_F'', Dir),
         (''out/WORD1_F/x_000000000000_keypoints.json'', File (Some (JNum 7)))],
      readonly = []\<rparr>"

text \<open>
  The dataset \<open>example_fs 0 1 1\<close> with an output directory \<open>out\<close> in which nothing may be
  created, and the same dataset with a directory whose name matches the frame pattern.
\<close>

definition readonly_output_fs :: filesystem where
  "readonly_output_fs =
     \<lparr>entries = entries (example_fs 0 1 1) @ [(''out'', Dir)], readonly = [''out'']\<rparr>"

definition directory_frame_fs :: filesystem where
  "directory_frame_fs =
     \<lparr>entries = entries (example_fs 0 1 1) @ [(''k/WORD1_F/x_2_keypoints.json'', Dir)],
      readonly = []\<rparr>"

section \<open>Properties of the Frame Range Calculator\<close>

subsection \<open>What the calculator returns and raises\<close>

lemma get_frame_range_value:
  assumes "py_truediv total_frames duration = Inr fps"
    and "py_mul start_time fps = Inr x" and "py_int x = Inr i"
    and "py_mul end_time fps = Inr y" and "py_int y = Inr j"
  shows "get_frame_range start_time end_time duration total_frames offset =
           Inr (max 0 (i - offset), min (total_frames - 1) (j + offset))"
  using assms by (simp add: get_frame_range_def Let_def)

lemma get_frame_range_returns:
  assumes "get_frame_range start_time end_time duration total_frames offset = Inr (s, e)"
  shows "\<exists>fps x i y j.
           py_truediv total_frames duration = Inr fps \<and>
           py_mul start_time fps = Inr x \<and> py_int x = Inr i \<and>
           py_mul end_time fps = Inr y \<and> py_int y = Inr j \<and>
           s = max 0 (i - offset) \<and> e = min (total_frames - 1) (j + offset)"
  using assms by (auto simp: get_frame_range_def Let_def split: sum.splits)

lemma get_frame_range_raises:
  assumes "get_frame_range start_time end_time duration total_frames offset = Inl err"
  shows "get_frame_range start_time end_time duration total_frames offset' = Inl err"
  using assms by (auto simp: get_frame_range_def Let_def split: sum.splits)

lemma get_frame_range_lower: "get_frame_range st et d tf off = Inr (s, e) \<Longrightarrow> 0 \<le> s"
  by (auto dest: get_frame_range_returns)

lemma get_frame_range_upper: "get_frame_range st et d tf off = Inr (s, e) \<Longrightarrow> e \<le> tf - 1"
  by (auto dest: get_frame_range_returns)

text \<open>
  The calculator at work.  Five seconds of a hundred frames, the sign between seconds one
  and three: the frames 10 to 70.  With thirty frames in eleven seconds \<open>fps\<close> is the float
  below \<open>30/11\<close> and \<open>11 * fps\<close> the float below \<open>30\<close>, so that \<open>int\<close> gives \<open>29\<close> and the
  start frame is \<open>19\<close>.
\<close>

lemma get_frame_range_exact:
  "get_frame_range (JNum 1) (JNum 3) (JNum 5) 100 10 = Inr (10, 70)"
  by code_simp

lemma get_frame_range_rounded:
  "get_frame_range (JInt 11) (JInt 11) (JInt 11) 30 10 = Inr (19, 29)"
  by code_simp

lemma get_frame_range_rounded_inverted:
  "get_frame_range (JInt 11) (JInt 0) (JInt 11) 30 10 = Inr (19, 10)"
  by code_simp

text \<open>
  A duration of zero raises \<open>ZeroDivisionError\<close>, a time that is no number \<open>TypeError\<close>, a
  \<open>nan\<close> \<open>ValueError\<close> and an infinite product \<open>OverflowError\<close>.
\<close>

lemma get_frame_range_zero_int:
  "get_frame_range (JInt 0) (JInt 1) (JInt 0) 2 10 = Inl ZeroDivisionError"
  by code_simp

lemma get_frame_range_zero_float:
  "get_frame_range (JNum 0) (JNum 1) (JNum 0) 2 10 = Inl ZeroDivisionError"
  by code_simp

lemma get_frame_range_no_number:
  "get_frame_range (JStr ''1.5'') (JNum 3) (JNum 5) 100 10 = Inl TypeError"
  by code_simp

lemma get_frame_range_nan:
  "get_frame_range (JInt 0) (JInt 0) JNaN 100 10 = Inl ValueError"
  by code_simp

lemma get_frame_range_infinite:
  "get_frame_range (JInt 0) JInfinity (JInt 5) 100 10 = Inl OverflowError"
  by code_simp

subsection \<open>Bounds and monotonicity\<close>

text \<open>
  Claim C4 (frame range bounds).  Every pair that \<open>get_frame_range\<close> returns satisfies
  \<open>0 \<le> start_frame\<close> and \<open>end_frame \<le> total_frames - 1\<close>.  This holds for every input,
  the inputs with \<open>0 \<le> start_time \<le> end_time \<le> duration\<close> among them, and whatever the
  rounding of the division and of the two products is: the two bounds come from the final
  \<open>max\<close> and \<open>min\<close>.
\<close>

theorem frame_range_bounds:
  assumes "get_frame_range start_time end_time duration total_frames offset =
             Inr (start_frame, end_frame)"
  shows "0 \<le> start_frame \<and> end_frame \<le> total_frames - 1"
proof
  from assms show "0 \<le> start_frame" by (rule get_frame_range_lower)
  from assms show "end_frame \<le> total_frames - 1" by (rule get_frame_range_upper)
qed

theorem frame_range_bounds_witness:
  "get_frame_range (JInt 11) (JInt 11) (JInt 11) 30 10 = Inr (19, 29) \<and>
   (0::int) \<le> 19 \<and> (29::int) \<le> 30 - 1"
proof -
  have val: "get_frame_range (JInt 11) (JInt 11) (JInt 11) 30 10 = Inr (19, 29)"
    by code_simp
  from frame_range_bounds [OF val] val show ?thesis by simp
qed

text \<open>
  Claim C8 (offset monotonicity).  For fixed times, duration and frame count and offsets
  \<open>o1 \<le> o2\<close>, the two calls behave alike: either both raise, the same exception (the
  offset enters after everything that can raise), or both return, and then the larger
  offset gives a start frame that is not larger and an end frame that is not smaller, the
  clamping to \<open>0\<close> and \<open>total_frames - 1\<close> included.  A duration above zero is not needed.
\<close>

theorem offset_monotone:
  assumes "o1 \<le> o2"
  shows "(\<exists>err. get_frame_range st et d tf o1 = Inl err \<and>
                get_frame_range st et d tf o2 = Inl err) \<or>
         (\<exists>s1 e1 s2 e2.
            get_frame_range st et d tf o1 = Inr (s1, e1) \<and>
            get_frame_range st et d tf o2 = Inr (s2, e2) \<and> s2 \<le> s1 \<and> e1 \<le> e2)"
proof (cases "get_frame_range st et d tf o1")
  case (Inl err)
  then have "get_frame_range st et d tf o2 = Inl err" by (rule get_frame_range_raises)
  with Inl show ?thesis by blast
next
  case (Inr p)
  obtain s1 e1 where "p = (s1, e1)" by (cases p)
  with Inr have 1: "get_frame_range st et d tf o1 = Inr (s1, e1)" by simp
  from get_frame_range_returns [OF 1] obtain fps x i y j
    where c: "py_truediv tf d = Inr fps" "py_mul st fps = Inr x" "py_int x = Inr i"
             "py_mul et fps = Inr y" "py_int y = Inr j"
      and s1: "s1 = max 0 (i - o1)" and e1: "e1 = min (tf - 1) (j + o1)"
    by blast
  from c have 2: "get_frame_range st et d tf o2 = Inr (max 0 (i - o2), min (tf - 1) (j + o2))"
    by (rule get_frame_range_value)
  have "max 0 (i - o2) \<le> s1" unfolding s1 using assms by linarith
  moreover have "e1 \<le> min (tf - 1) (j + o2)" unfolding e1 using assms by linarith
  ultimately show ?thesis using 1 2 by blast
qed

theorem offset_monotone_witness:
  "(5::int) \<le> 10 \<and>
   get_frame_range (JNum 1) (JNum 3) (JNum 5) 100 5 = Inr (15, 65) \<and>
   get_frame_range (JNum 1) (JNum 3) (JNum 5) 100 10 = Inr (10, 70) \<and>
   (10::int) \<le> 15 \<and> (65::int) \<le> 70"
proof -
  have v1: "get_frame_range (JNum 1) (JNum 3) (JNum 5) 100 5 = Inr (15, 65)"
    by code_simp
  have v2: "get_frame_range (JNum 1) (JNum 3) (JNum 5) 100 10 = Inr (10, 70)"
    by code_simp
  have le: "(5::int) \<le> 10" by simp
  from offset_monotone [OF le, of "JNum 1" "JNum 3" "JNum 5" 100] v1 v2 show ?thesis
    by simp
qed

section \<open>Properties of the Folder Processor\<close>

subsection \<open>The copy loop and the two phases of a run\<close>

lemma copy_frames_dry:
  "list_all (\<lambda>j. 0 \<le> j \<and> j < int (length kfs)) idxs \<Longrightarrow>
   copy_frames fs kfs out True i idxs c = (Inr (c + length idxs), fs)"
  by (induction idxs arbitrary: i c) (simp_all add: getitem_index_def)

lemma call_get_frame_range_bounds:
  "call_get_frame_range st et d tf = Inr (s, e) \<Longrightarrow> 0 \<le> s \<and> e \<le> tf - 1"
  unfolding call_get_frame_range_def
  by (auto dest: get_frame_range_lower get_frame_range_upper)

lemma upto_in_range:
  "0 \<le> s \<Longrightarrow> e \<le> int n - 1 \<Longrightarrow> list_all (\<lambda>j. 0 \<le> j \<and> j < int n) [s..e]"
  by (auto simp: list_all_iff)

lemma trim_folder_raise:
  "call_get_frame_range st et d (int (length kfs)) = Inl x \<Longrightarrow>
   trim_folder fs name kfs st et d ob dry = (Inl x, fs)"
  by (simp add: trim_folder_def)

lemma trim_folder_dry:
  assumes "call_get_frame_range st et d (int (length kfs)) = Inr (s, e)"
  shows "trim_folder fs name kfs st et d ob True =
           (Inr (success_result name (int (length kfs)) s e st et), fs)"
proof -
  from call_get_frame_range_bounds [OF assms]
  have "list_all (\<lambda>j. 0 \<le> j \<and> j < int (length kfs)) [s..e]"
    by (simp add: upto_in_range)
  then have "copy_frames fs kfs (path_join ob name) True 0 [s..e] 0 =
               (Inr (0 + length [s..e]), fs)"
    by (rule copy_frames_dry)
  with assms show ?thesis by (simp add: trim_folder_def)
qed

lemma trim_folder_real:
  assumes "call_get_frame_range st et d (int (length kfs)) = Inr (s, e)"
  shows "trim_folder fs name kfs st et d ob False =
           (case makedirs fs (path_join ob name) of
              (Inl x, fs1) \<Rightarrow> (Inl x, fs1)
            | (Inr u, fs1) \<Rightarrow>
                (case copy_frames fs1 kfs (path_join ob name) False 0 [s..e] 0 of
                   (Inl x, fs2) \<Rightarrow> (Inl x, fs2)
                 | (Inr c, fs2) \<Rightarrow>
                     (Inr (success_result name (int (length kfs)) s e st et), fs2)))"
  using assms by (simp add: trim_folder_def Let_def)

lemma success_result_success:
  "map_of (success_result n t s e st et) ''success'' = Some (VBool True)"
  by (simp add: success_result_def Let_def)

lemma trim_folder_dry_unchanged: "snd (trim_folder fs name kfs st et d ob True) = fs"
proof (cases "call_get_frame_range st et d (int (length kfs))")
  case (Inl x)
  then show ?thesis by (simp add: trim_folder_raise)
next
  case (Inr p)
  obtain s e where "p = (s, e)" by (cases p)
  with Inr have "call_get_frame_range st et d (int (length kfs)) = Inr (s, e)" by simp
  then show ?thesis by (simp add: trim_folder_dry)
qed

lemma trim_folder_dry_result:
  "fst (trim_folder fs name kfs st et d ob False) = fst (trim_folder fs name kfs st et d ob True) \<or>
   (\<exists>x r. fst (trim_folder fs name kfs st et d ob False) = Inl x \<and>
          fst (trim_folder fs name kfs st et d ob True) = Inr r \<and>
          map_of r ''success'' = Some (VBool True))"
proof (cases "call_get_frame_range st et d (int (length kfs))")
  case (Inl x)
  then show ?thesis by (simp add: trim_folder_raise)
next
  case (Inr p)
  obtain s e where "p = (s, e)" by (cases p)
  with Inr have c: "call_get_frame_range st et d (int (length kfs)) = Inr (s, e)" by simp
  show ?thesis
    unfolding trim_folder_dry [OF c] trim_folder_real [OF c]
    by (simp add: success_result_success split: prod.split sum.split)
qed

subsection \<open>Dry run\<close>

text \<open>
  Claim C6, as the code has it.  A dry run never changes the file system.  Its result is
  the result of the real run on the same inputs, except when the real run raises out of
  the directory creation or the copy loop: then the dry run, which skips both, returns
  the Success dictionary.
\<close>

theorem dry_run_same_outcome:
  "snd (process_sign_folder fs kf mf ob True) = fs \<and>
   (fst (process_sign_folder fs kf mf ob False) = fst (process_sign_folder fs kf mf ob True) \<or>
    (\<exists>x r. fst (process_sign_folder fs kf mf ob False) = Inl x \<and>
           fst (process_sign_folder fs kf mf ob True) = Inr r \<and>
           map_of r ''success'' = Some (VBool True)))"
proof (cases "folder_inputs fs kf mf")
  case (Inl early)
  then show ?thesis by (simp add: process_sign_folder_def)
next
  case (Inr t)
  obtain name kfs st et d where "t = (name, kfs, st, et, d)" by (cases t)
  with Inr
  have "\<And>dry. process_sign_folder fs kf mf ob dry = trim_folder fs name kfs st et d ob dry"
    by (simp add: process_sign_folder_def)
  then show ?thesis
    using trim_folder_dry_unchanged [of fs name kfs st et d ob]
      trim_folder_dry_result [of fs name kfs st et d ob]
    by simp
qed

theorem dry_run_same_outcome_witness:
  "snd (process_sign_folder (example_fs 0 1 1) ''k/WORD1_F'' ''m'' ''out'' True)
     = example_fs 0 1 1 \<and>
   fst (process_sign_folder (example_fs 0 1 1) ''k/WORD1_F'' ''m'' ''out'' False)
     = Inr (success_result ''WORD1_F'' 2 0 1 (JNum 0) (JNum 1)) \<and>
   fst (process_sign_folder (example_fs 0 1 1) ''k/WORD1_F'' ''m'' ''out'' True)
     = Inr (success_result ''WORD1_F'' 2 0 1 (JNum 0) (JNum 1))"
proof -
  have real: "fst (process_sign_folder (example_fs 0 1 1) ''k/WORD1_F'' ''m'' ''out'' False)
                = Inr (success_result ''WORD1_F'' 2 0 1 (JNum 0) (JNum 1))"
    by code_simp
  from dry_run_same_outcome [of "example_fs 0 1 1" "''k/WORD1_F''" "''m''" "''out''"] real
  show ?thesis by auto
qed

text \<open>
  The claim as stated fails where the real run cannot write: in \<open>readonly_output_fs\<close> the
  real run raises \<open>PermissionError\<close> out of \<open>os.makedirs\<close> and returns no outcome, while
  the dry run returns Success.
\<close>

theorem dry_run_differs_when_write_fails:
  "fst (process_sign_folder readonly_output_fs ''k/WORD1_F'' ''m'' ''out'' False)
     = Inl PermissionError \<and>
   fst (process_sign_folder readonly_output_fs ''k/WORD1_F'' ''m'' ''out'' True)
     = Inr (success_result ''WORD1_F'' 2 0 1 (JNum 0) (JNum 1)) \<and>
   fst (process_sign_folder readonly_output_fs ''k/WORD1_F'' ''m'' ''out'' True)
     \<noteq> fst (process_sign_folder readonly_output_fs ''k/WORD1_F'' ''m'' ''out'' False)"
  by code_simp

subsection \<open>Failures that leave the Folder Processor as exceptions\<close>

text \<open>
  Claim C1 fails on the code.  A metadata file with \<open>duration = 0\<close> makes
  \<open>process_sign_folder\<close> raise \<open>ZeroDivisionError\<close>, a failing directory creation
  \<open>PermissionError\<close>, a failing copy inside the loop \<open>IsADirectoryError\<close> (with the frames
  copied before it left in place): none is returned as an error dictionary, and the
  exception ends the sequential job loop before the next task runs.
\<close>

theorem folder_failures_escape:
  "process_sign_folder (example_fs 0 1 0) ''k/WORD1_F'' ''m'' ''out'' False
     = (Inl ZeroDivisionError, example_fs 0 1 0) \<and>
   fst (process_sign_folder readonly_output_fs ''k/WORD1_F'' ''m'' ''out'' False)
     = Inl PermissionError \<and>
   fst (process_sign_folder directory_frame_fs ''k/WORD1_F'' ''m'' ''out'' False)
     = Inl IsADirectoryError \<and>
   listdir (snd (process_sign_folder directory_frame_fs ''k/WORD1_F'' ''m'' ''out'' False))
       ''out/WORD1_F''
     = [''x_000000000000_keypoints.json'', ''x_000000000001_keypoints.json''] \<and>
   fst (run_sequential (example_fs 0 1 0)
          [(''k/WORD1_F'', ''m'', ''out'', False), (''k/WORD1_D'', ''m'', ''out'', False)] [])
     = Inl ZeroDivisionError"
  by code_simp


subsection \<open>Directory creation\<close>

lemma length_dirname_less:
  assumes "basename name \<noteq> []"
  shows "length (dirname name) < length name"
proof -
  let ?head = "rev (dropWhile (\<lambda>c. c \<noteq> CHR ''/'') (rev name))"
  have split: "length ?head + length (basename name) = length name"
    unfolding basename_def
    by (metis length_append length_rev takeWhile_dropWhile_id add.commute)
  have "length (dirname name) \<le> length ?head"
    unfolding dirname_def Let_def
    by (simp add: length_dropWhile_le order.trans [OF length_dropWhile_le])
  with split assms show ?thesis
    by (cases "basename name") auto
qed

lemma mkdir_exist_ok_entries:
  "\<exists>ps. entries (snd (mkdir_exist_ok fs name)) = entries fs @ map (\<lambda>p. (p, Dir)) ps \<and>
        list_all (\<lambda>p. length p \<le> length name) ps"
proof (cases "fst (mkdir fs name)")
  case (Inl x)
  then have "snd (mkdir_exist_ok fs name) = fs"
    by (auto simp: mkdir_exist_ok_def mkdir_def split: if_splits)
  then have "entries (snd (mkdir_exist_ok fs name)) = entries fs @ map (\<lambda>p. (p, Dir)) []"
    by simp
  moreover have "list_all (\<lambda>p. length p \<le> length name) []" by simp
  ultimately show ?thesis by blast
next
  case (Inr u)
  then have "snd (mkdir_exist_ok fs name) = fs\<lparr>entries := entries fs @ [(name, Dir)]\<rparr>"
    by (auto simp: mkdir_exist_ok_def mkdir_def split: if_splits)
  then have "entries (snd (mkdir_exist_ok fs name)) = entries fs @ map (\<lambda>p. (p, Dir)) [name]"
    by simp
  moreover have "list_all (\<lambda>p. length p \<le> length name) [name]" by simp
  ultimately show ?thesis by blast
qed

lemma mkdir_exist_ok_dir:
  assumes "mkdir_exist_ok fs name = (Inr u, fs')"
  shows "lookup fs' name = Some Dir"
  using assms
  by (auto simp: mkdir_exist_ok_def mkdir_def path_exists_def lookup_def map_add_def
      split: if_splits)

lemma makedirs_leaf:
  assumes "\<not> (dirname name \<noteq> [] \<and> basename name \<noteq> [] \<and> \<not> path_exists fs (dirname name))"
  shows "makedirs fs name = mkdir_exist_ok fs name"
  by (subst makedirs.simps) (rule if_not_P [OF assms])

lemma makedirs_step:
  assumes "dirname name \<noteq> [] \<and> basename name \<noteq> [] \<and> \<not> path_exists fs (dirname name)"
  shows "makedirs fs name =
           (case makedirs fs (dirname name) of
              (Inl e, fs1) \<Rightarrow>
                if e = FileExistsError then mkdir_exist_ok fs1 name else (Inl e, fs1)
            | (Inr u, fs1) \<Rightarrow> mkdir_exist_ok fs1 name)"
  by (subst makedirs.simps) (rule if_P [OF assms])

lemma makedirs_dir:
  assumes "makedirs fs name = (Inr u, fs')"
  shows "lookup fs' name = Some Dir"
proof (cases "dirname name \<noteq> [] \<and> basename name \<noteq> [] \<and> \<not> path_exists fs (dirname name)")
  case False
  with assms have "mkdir_exist_ok fs name = (Inr u, fs')"
    by (simp add: makedirs_leaf)
  then show ?thesis by (rule mkdir_exist_ok_dir)
next
  case True
  obtain r fs1 where rec: "makedirs fs (dirname name) = (r, fs1)" by (cases "makedirs fs (dirname name)")
  with assms have "mkdir_exist_ok fs1 name = (Inr u, fs')"
    unfolding makedirs_step [OF True]
    by (simp split: sum.splits if_splits)
  then show ?thesis by (rule mkdir_exist_ok_dir)
qed

lemma makedirs_entries:
  "\<exists>ps. entries (snd (makedirs fs name)) = entries fs @ map (\<lambda>p. (p, Dir)) ps \<and>
        list_all (\<lambda>p. length p \<le> length name) ps"
proof (induction fs name rule: makedirs.induct)
  case (1 fs name)
  show ?case
  proof (cases "dirname name \<noteq> [] \<and> basename name \<noteq> [] \<and> \<not> path_exists fs (dirname name)")
    case False
    then have "makedirs fs name = mkdir_exist_ok fs name"
      by (rule makedirs_leaf)
    then show ?thesis using mkdir_exist_ok_entries [of fs name] by simp
  next
    case True
    obtain r fs1 where rec: "makedirs fs (dirname name) = (r, fs1)"
      by (cases "makedirs fs (dirname name)")
    from "1.IH" [OF True] rec obtain ps1 where
      ps1: "entries fs1 = entries fs @ map (\<lambda>p. (p, Dir)) ps1"
        "list_all (\<lambda>p. length p \<le> length (dirname name)) ps1"
      by auto
    from True have "length (dirname name) < length name" by (simp add: length_dirname_less)
    with ps1(2) have short: "list_all (\<lambda>p. length p \<le> length name) ps1"
      by (auto simp: list_all_iff)
    from rec have res: "makedirs fs name = mkdir_exist_ok fs1 name \<or> makedirs fs name = (r, fs1)"
      unfolding makedirs_step [OF True]
      by (simp split: sum.splits)
    from mkdir_exist_ok_entries [of fs1 name] obtain ps2 where
      ps2: "entries (snd (mkdir_exist_ok fs1 name)) = entries fs1 @ map (\<lambda>p. (p, Dir)) ps2"
        "list_all (\<lambda>p. length p \<le> length name) ps2"
      by auto
    from res show ?thesis
    proof
      assume "makedirs fs name = mkdir_exist_ok fs1 name"
      with ps1(1) ps2(1)
      have "entries (snd (makedirs fs name)) = entries fs @ map (\<lambda>p. (p, Dir)) (ps1 @ ps2)"
        by simp
      moreover from short ps2(2) have "list_all (\<lambda>p. length p \<le> length name) (ps1 @ ps2)"
        by simp
      ultimately show ?thesis by blast
    next
      assume "makedirs fs name = (r, fs1)"
      with ps1(1) short show ?thesis by auto
    qed
  qed
qed

lemma listdir_new_directories:
  assumes "entries fs' = entries fs @ map (\<lambda>p. (p, Dir)) ps"
    and "list_all (\<lambda>p. length p \<le> length name) ps"
  shows "listdir fs' name = listdir fs name"
proof -
  have "filter (\<lambda>p. dirname p = name \<and> basename p \<noteq> []) ps = []"
  proof (rule filter_False, rule ballI)
    fix p assume "p \<in> set ps"
    with assms(2) have le: "length p \<le> length name" by (simp add: list_all_iff)
    show "\<not> (dirname p = name \<and> basename p \<noteq> [])"
    proof
      assume "dirname p = name \<and> basename p \<noteq> []"
      with length_dirname_less [of p] have "length name < length p" by auto
      with le show False by simp
    qed
  qed
  with assms(1) show ?thesis by (simp add: listdir_def comp_def)
qed

lemma makedirs_listdir: "listdir (snd (makedirs fs name)) name = listdir fs name"
  using makedirs_entries [of fs name] listdir_new_directories by blast

subsection \<open>The inverted range\<close>

text \<open>
  Claim C5.  Let the division, the two products and the two truncations of
  \<open>get_frame_range\<close> return, \<open>i\<close> and \<open>j\<close> being the truncated products, and let the clamped
  values be inverted: \<open>max(0, i - offset) > min(total_frames - 1, j + offset)\<close>.  Then
  \<open>get_frame_range\<close> returns exactly these two values, in this order (nothing is swapped,
  floored or widened).  And for every folder whose metadata holds these times and which
  has \<open>total_frames\<close> frames, the Folder Processor (which calls with the default offset)
  copies zero frames: the dry run returns the Success dictionary with the inverted range
  and leaves the file system as it was, and the real run does nothing after
  \<open>os.makedirs\<close>: it raises what \<open>os.makedirs\<close> raises or returns the same dictionary, on
  the file system that \<open>os.makedirs\<close> left, which differs from the initial one by
  directories only.
\<close>

theorem inverted_range_copies_nothing:
  assumes "py_truediv total_frames duration = Inr fps"
    and "py_mul start_time fps = Inr x" and "py_int x = Inr i"
    and "py_mul end_time fps = Inr y" and "py_int y = Inr j"
    and "min (total_frames - 1) (j + offset) < max 0 (i - offset)"
  shows "get_frame_range start_time end_time duration total_frames offset =
           Inr (max 0 (i - offset), min (total_frames - 1) (j + offset)) \<and>
         (\<forall>fs kf mf ob name kfs.
            folder_inputs fs kf mf = Inr (name, kfs, start_time, end_time, duration) \<and>
            total_frames = int (length kfs) \<and> offset = default_offset \<longrightarrow>
              process_sign_folder fs kf mf ob True =
                (Inr (success_result name total_frames (max 0 (i - offset))
                        (min (total_frames - 1) (j + offset)) start_time end_time), fs) \<and>
              process_sign_folder fs kf mf ob False =
                (case makedirs fs (path_join ob name) of
                   (Inl err, fs1) \<Rightarrow> (Inl err, fs1)
                 | (Inr u, fs1) \<Rightarrow>
                     (Inr (success_result name total_frames (max 0 (i - offset))
                             (min (total_frames - 1) (j + offset)) start_time end_time), fs1)) \<and>
              (\<exists>ps. entries (snd (process_sign_folder fs kf mf ob False)) =
                      entries fs @ map (\<lambda>p. (p, Dir)) ps))"
proof (intro conjI allI impI)
  let ?s = "max 0 (i - offset)"
  let ?e = "min (total_frames - 1) (j + offset)"
  show val: "get_frame_range start_time end_time duration total_frames offset = Inr (?s, ?e)"
    using assms(1-5) by (rule get_frame_range_value)
  from assms(6) have empty: "[?s..?e] = []" by simp
  fix fs kf mf ob name kfs
  assume a: "folder_inputs fs kf mf = Inr (name, kfs, start_time, end_time, duration) \<and>
             total_frames = int (length kfs) \<and> offset = default_offset"
  with val have call:
    "call_get_frame_range start_time end_time duration (int (length kfs)) = Inr (?s, ?e)"
    by (simp add: call_get_frame_range_def)
  from a have run: "\<And>dry. process_sign_folder fs kf mf ob dry =
                       trim_folder fs name kfs start_time end_time duration ob dry"
    by (simp add: process_sign_folder_def)
  from a show "process_sign_folder fs kf mf ob True =
                 (Inr (success_result name total_frames ?s ?e start_time end_time), fs)"
    unfolding run trim_folder_dry [OF call] by simp
  from a empty
  show real: "process_sign_folder fs kf mf ob False =
                (case makedirs fs (path_join ob name) of
                   (Inl err, fs1) \<Rightarrow> (Inl err, fs1)
                 | (Inr u, fs1) \<Rightarrow>
                     (Inr (success_result name total_frames ?s ?e start_time end_time), fs1))"
    unfolding run trim_folder_real [OF call] by (simp split: prod.split sum.split)
  have "snd (process_sign_folder fs kf mf ob False) = snd (makedirs fs (path_join ob name))"
    unfolding real by (simp split: prod.split sum.split)
  with makedirs_entries [of fs "path_join ob name"]
  show "\<exists>ps. entries (snd (process_sign_folder fs kf mf ob False)) =
               entries fs @ map (\<lambda>p. (p, Dir)) ps"
    by auto
qed

theorem inverted_range_copies_nothing_witness:
  "py_truediv 2 (JNum 1) = Inr (Finite 2) \<and>
   py_mul (JNum 20) (Finite 2) = Inr (Finite 40) \<and> py_int (Finite 40) = Inr 40 \<and>
   py_mul (JNum 0) (Finite 2) = Inr (Finite 0) \<and> py_int (Finite 0) = Inr 0 \<and>
   min (2 - 1) (0 + 10) < max 0 (40 - (10::int)) \<and>
   get_frame_range (JNum 20) (JNum 0) (JNum 1) 2 10 = Inr (30, 1) \<and>
   folder_inputs (example_fs 20 0 1) ''k/WORD1_F'' ''m'' =
     Inr (''WORD1_F'', [''k/WORD1_F/x_0_keypoints.json'', ''k/WORD1_F/x_1_keypoints.json''],
          JNum 20, JNum 0, JNum 1) \<and>
   process_sign_folder (example_fs 20 0 1) ''k/WORD1_F'' ''m'' ''out'' True =
     (Inr (success_result ''WORD1_F'' 2 30 1 (JNum 20) (JNum 0)), example_fs 20 0 1) \<and>
   entries (snd (process_sign_folder (example_fs 20 0 1) ''k/WORD1_F'' ''m'' ''out'' False)) =
     entries (example_fs 20 0 1) @ [(''out'', Dir), (''out/WORD1_F'', Dir)]"
proof -
  let ?fs = "example_fs 20 0 1"
  let ?kfs = "[''k/WORD1_F/x_0_keypoints.json'', ''k/WORD1_F/x_1_keypoints.json'']"
  have fps: "py_truediv 2 (JNum 1) = Inr (Finite 2)" by code_simp
  have x: "py_mul (JNum 20) (Finite 2) = Inr (Finite 40)" by code_simp
  have i: "py_int (Finite 40) = Inr 40" by simp
  have y: "py_mul (JNum 0) (Finite 2) = Inr (Finite 0)" by code_simp
  have j: "py_int (Finite 0) = Inr 0" by simp
  have inverted: "min (2 - 1) (0 + 10) < max 0 (40 - (10::int))" by simp
  have inputs: "folder_inputs ?fs ''k/WORD1_F'' ''m'' =
                  Inr (''WORD1_F'', ?kfs, JNum 20, JNum 0, JNum 1)"
    by code_simp
  have after: "entries (snd (process_sign_folder ?fs ''k/WORD1_F'' ''m'' ''out'' False)) =
                 entries ?fs @ [(''out'', Dir), (''out/WORD1_F'', Dir)]"
    by code_simp
  from inverted_range_copies_nothing [OF fps x i y j inverted]
  have range: "get_frame_range (JNum 20) (JNum 0) (JNum 1) 2 10 = Inr (30, 1)"
    and folder: "\<And>fs kf mf ob name kfs.
           folder_inputs fs kf mf = Inr (name, kfs, JNum 20, JNum 0, JNum 1) \<and>
           2 = int (length kfs) \<and> (10::int) = default_offset \<Longrightarrow>
             process_sign_folder fs kf mf ob True =
               (Inr (success_result name 2 (max 0 (40 - 10)) (min (2 - 1) (0 + 10))
                       (JNum 20) (JNum 0)), fs)"
    by simp_all
  from folder [of ?fs "''k/WORD1_F''" "''m''" "''WORD1_F''" ?kfs "''out''"] inputs
  have dry: "process_sign_folder ?fs ''k/WORD1_F'' ''m'' ''out'' True =
               (Inr (success_result ''WORD1_F'' 2 30 1 (JNum 20) (JNum 0)), ?fs)"
    by (simp add: default_offset_def)
  from fps x i y j inverted range inputs dry after show ?thesis by simp
qed

subsection \<open>The output directory of an empty range\<close>

text \<open>
  Claim C10, as the code has it.  In a run that is not a dry run the output directory is
  created before the copy loop.  For a Front-view folder whose inputs load and whose
  computed range is empty (\<open>start_frame > end_frame\<close>), when the directory creation
  succeeds the run returns the Success dictionary, the output directory exists, and its
  entries are those it had before the run: none when it did not exist (it is left
  empty), the old ones when an earlier run had filled it.
\<close>

theorem empty_range_output_directory:
  assumes "folder_inputs fs kf mf = Inr (name, kfs, st, et, d)"
    and "call_get_frame_range st et d (int (length kfs)) = Inr (s, e)"
    and "e < s"
    and "makedirs fs (path_join ob name) = (Inr (), fs1)"
  shows "process_sign_folder fs kf mf ob False =
           (Inr (success_result name (int (length kfs)) s e st et), fs1) \<and>
         lookup fs1 (path_join ob name) = Some Dir \<and>
         listdir fs1 (path_join ob name) = listdir fs (path_join ob name)"
proof -
  from assms(3) have "[s..e] = []" by simp
  with assms(1,4) trim_folder_real [OF assms(2), of fs name ob]
  have "process_sign_folder fs kf mf ob False =
          (Inr (success_result name (int (length kfs)) s e st et), fs1)"
    by (simp add: process_sign_folder_def)
  moreover from assms(4) have "lookup fs1 (path_join ob name) = Some Dir"
    by (rule makedirs_dir)
  moreover from makedirs_listdir [of fs "path_join ob name"] assms(4)
  have "listdir fs1 (path_join ob name) = listdir fs (path_join ob name)" by simp
  ultimately show ?thesis by blast
qed

theorem empty_range_output_directory_witness:
  "folder_inputs (example_fs 20 0 1) ''k/WORD1_F'' ''m'' =
     Inr (''WORD1_F'', [''k/WORD1_F/x_0_keypoints.json'', ''k/WORD1_F/x_1_keypoints.json''],
          JNum 20, JNum 0, JNum 1) \<and>
   call_get_frame_range (JNum 20) (JNum 0) (JNum 1) 2 = Inr (30, 1) \<and> (1::int) < 30 \<and>
   fst (makedirs (example_fs 20 0 1) ''out/WORD1_F'') = Inr () \<and>
   fst (process_sign_folder (example_fs 20 0 1) ''k/WORD1_F'' ''m'' ''out'' False) =
     Inr (success_result ''WORD1_F'' 2 30 1 (JNum 20) (JNum 0)) \<and>
   lookup (snd (process_sign_folder (example_fs 20 0 1) ''k/WORD1_F'' ''m'' ''out'' False))
     ''out/WORD1_F'' = Some Dir \<and>
   listdir (snd (process_sign_folder (example_fs 20 0 1) ''k/WORD1_F'' ''m'' ''out'' False))
     ''out/WORD1_F'' = []"
proof -
  let ?fs = "example_fs 20 0 1"
  let ?kfs = "[''k/WORD1_F/x_0_keypoints.json'', ''k/WORD1_F/x_1_keypoints.json'']"
  have inputs: "folder_inputs ?fs ''k/WORD1_F'' ''m'' = Inr (''WORD1_F'', ?kfs, JNum 20, JNum 0, JNum 1)"
    by code_simp
  have range: "call_get_frame_range (JNum 20) (JNum 0) (JNum 1) (int (length ?kfs)) = Inr (30, 1)"
    by code_simp
  have inverted: "(1::int) < 30" by simp
  have join: "path_join ''out'' ''WORD1_F'' = ''out/WORD1_F''" by code_simp
  have created: "fst (makedirs ?fs ''out/WORD1_F'') = Inr ()" by code_simp
  then have mk: "makedirs ?fs (path_join ''out'' ''WORD1_F'') =
                   (Inr (), snd (makedirs ?fs (path_join ''out'' ''WORD1_F'')))"
    unfolding join by (metis prod.collapse)
  have before: "listdir ?fs ''out/WORD1_F'' = []" by code_simp
  from empty_range_output_directory [OF inputs range inverted mk] range created before
  show ?thesis unfolding join by (simp add: inputs)
qed

text \<open>
  The claim as stated fails on an output directory that an earlier run has filled
  (\<open>exist_ok=True\<close> accepts it): the run succeeds with the empty range 30..1 and the
  directory still holds the old frame.
\<close>

theorem stale_output_directory_not_empty:
  "fst (process_sign_folder stale_output_fs ''k/WORD1_F'' ''m'' ''out'' False) =
     Inr (success_result ''WORD1_F'' 2 30 1 (JNum 20) (JNum 0)) \<and>
   listdir (snd (process_sign_folder stale_output_fs ''k/WORD1_F'' ''m'' ''out'' False))
     ''out/WORD1_F'' = [''x_000000000000_keypoints.json''] \<and>
   listdir (snd (process_sign_folder stale_output_fs ''k/WORD1_F'' ''m'' ''out'' False))
     ''out/WORD1_F'' \<noteq> []"
  by code_simp

subsection \<open>Selecting the metadata file\<close>

text \<open>
  Claim C2, as the code has it.  The metadata file that the Folder Processor selects is
  the match that the directory lists first: every name listed before it fails the
  pattern.  The matches are not sorted.
\<close>

theorem morpheme_file_first_listed:
  assumes "find_morpheme_file fs pattern = Some f"
  shows "\<exists>before name after.
           listdir fs (dirname pattern) = before @ name # after \<and>
           f = path_join (dirname pattern) name \<and>
           glob_selects (basename pattern) name \<and>
           list_all (\<lambda>n. \<not> glob_selects (basename pattern) n) before"
proof -
  from assms obtain others where g: "glob fs pattern = f # others"
    by (auto simp: find_morpheme_file_def split: list.splits)
  then have "map (path_join (dirname pattern))
               (filter (glob_selects (basename pattern)) (listdir fs (dirname pattern))) = f # others"
    by (simp add: glob_def Let_def split: if_splits)
  then obtain name names where
    sel: "filter (glob_selects (basename pattern)) (listdir fs (dirname pattern)) = name # names"
    and f: "f = path_join (dirname pattern) name"
    by (auto simp: map_eq_Cons_conv)
  from sel obtain before after where
    "listdir fs (dirname pattern) = before @ name # after"
    "\<forall>n\<in>set before. \<not> glob_selects (basename pattern) n"
    "glob_selects (basename pattern) name"
    by (auto simp: filter_eq_Cons_iff)
  with f show ?thesis by (auto simp: list_all_iff)
qed

theorem morpheme_file_first_listed_witness:
  "find_morpheme_file two_matches_fs ''m/NIA_SL_WORD1_REAL*_F_morpheme.json'' =
     Some ''m/NIA_SL_WORD1_REAL2_F_morpheme.json'' \<and>
   (\<exists>before name after.
      listdir two_matches_fs (dirname ''m/NIA_SL_WORD1_REAL*_F_morpheme.json'') =
        before @ name # after \<and>
      ''m/NIA_SL_WORD1_REAL2_F_morpheme.json'' =
        path_join (dirname ''m/NIA_SL_WORD1_REAL*_F_morpheme.json'') name \<and>
      glob_selects (basename ''m/NIA_SL_WORD1_REAL*_F_morpheme.json'') name \<and>
      list_all (\<lambda>n. \<not> glob_selects (basename ''m/NIA_SL_WORD1_REAL*_F_morpheme.json'') n) before)"
proof -
  have sel: "find_morpheme_file two_matches_fs ''m/NIA_SL_WORD1_REAL*_F_morpheme.json'' =
               Some ''m/NIA_SL_WORD1_REAL2_F_morpheme.json''"
    by code_simp
  from morpheme_file_first_listed [OF sel] sel show ?thesis by blast
qed

text \<open>
  The claim as stated fails: when the directory lists \<open>REAL2\<close> before \<open>REAL1\<close>, the code
  takes \<open>REAL2\<close>, which is not the first of the sorted matches; listing the same two
  files in the other order changes the selected file and with it the outcome.
\<close>

theorem morpheme_file_not_lexicographic_first:
  "glob two_matches_fs ''m/NIA_SL_WORD1_REAL*_F_morpheme.json'' =
     [''m/NIA_SL_WORD1_REAL2_F_morpheme.json'', ''m/NIA_SL_WORD1_REAL1_F_morpheme.json''] \<and>
   find_morpheme_file two_matches_fs ''m/NIA_SL_WORD1_REAL*_F_morpheme.json'' =
     Some ''m/NIA_SL_WORD1_REAL2_F_morpheme.json'' \<and>
   hd (sort (glob two_matches_fs ''m/NIA_SL_WORD1_REAL*_F_morpheme.json'')) =
     ''m/NIA_SL_WORD1_REAL1_F_morpheme.json'' \<and>
   find_morpheme_file two_matches_fs_relisted ''m/NIA_SL_WORD1_REAL*_F_morpheme.json'' =
     Some ''m/NIA_SL_WORD1_REAL1_F_morpheme.json'' \<and>
   fst (process_sign_folder two_matches_fs ''k/WORD1_F'' ''m'' ''out'' True) =
     Inr (success_result ''WORD1_F'' 1 0 0 (JNum 1) (JNum 2)) \<and>
   fst (process_sign_folder two_matches_fs_relisted ''k/WORD1_F'' ''m'' ''out'' True) =
     Inr (success_result ''WORD1_F'' 1 0 0 (JNum 0) (JNum 1))"
  by code_simp

subsection \<open>Error outcomes and the error report\<close>

lemma folder_inputs_early:
  assumes "folder_inputs fs kf mf = Inl early"
  shows "early = [(''skipped'', VBool True), (''reason'', VStr ''Not F view'')] \<or>
         (\<exists>msg. early = [(''error'', VStr msg)])"
  using assms
  by (auto simp: folder_inputs_def Let_def split: if_splits option.splits sum.splits)

lemma success_result_no_error: "map_of (success_result n t s e st et) ''error'' = None"
  by (simp add: success_result_def Let_def)

lemma trim_folder_result:
  assumes "fst (trim_folder fs name kfs st et d ob dry) = Inr r"
  shows "\<exists>s e. r = success_result name (int (length kfs)) s e st et"
proof (cases "call_get_frame_range st et d (int (length kfs))")
  case (Inl x)
  with assms show ?thesis by (simp add: trim_folder_raise)
next
  case (Inr p)
  obtain s e where "p = (s, e)" by (cases p)
  with Inr have c: "call_get_frame_range st et d (int (length kfs)) = Inr (s, e)" by simp
  show ?thesis
  proof (cases dry)
    case True
    with assms c show ?thesis by (auto simp: trim_folder_dry)
  next
    case False
    with assms show ?thesis
      by (auto simp: trim_folder_real [OF c] split: prod.splits sum.splits)
  qed
qed

text \<open>
  Claim C3 fails on the code.  No error dictionary that \<open>process_sign_folder\<close> returns has
  the key \<open>'folder'\<close>, so \<open>result.get('folder', 'Unknown')\<close> of the collection loop always
  gives the placeholder: the report line of every error is \<open>Unknown: <message>\<close>.
\<close>

theorem error_outcome_names_no_folder:
  assumes "fst (process_sign_folder fs kf mf ob dry) = Inr r"
    and "map_of r ''error'' = Some (VStr msg)" and "msg \<noteq> []"
  shows "map_of r ''folder'' = None \<and>
         error_list (collect_results [r] empty_summary) = [''Unknown: '' @ msg]"
proof (cases "folder_inputs fs kf mf")
  case (Inl early)
  with assms(1) have "r = early" by (simp add: process_sign_folder_def)
  with folder_inputs_early [OF Inl] assms(2) have "r = [(''error'', VStr msg)]" by auto
  with assms(3) show ?thesis by (simp add: empty_summary_def dict_get_def)
next
  case (Inr t)
  obtain name kfs st et d where "t = (name, kfs, st, et, d)" by (cases t)
  with Inr assms(1) have "fst (trim_folder fs name kfs st et d ob dry) = Inr r"
    by (simp add: process_sign_folder_def)
  from trim_folder_result [OF this] assms(2) show ?thesis
    by (auto simp: success_result_no_error)
qed

theorem error_outcome_names_no_folder_witness:
  "fst (process_sign_folder (example_fs 0 1 1) ''k/WORD1_F'' ''m2'' ''out'' False) =
     Inr [(''error'',
           VStr ''Morpheme file not found with pattern: m2/NIA_SL_WORD1_REAL*_F_morpheme.json'')] \<and>
   map_of [(''error'',
            VStr ''Morpheme file not found with pattern: m2/NIA_SL_WORD1_REAL*_F_morpheme.json'')]
     ''folder'' = None \<and>
   error_list
     (collect_results
        [[(''error'',
           VStr ''Morpheme file not found with pattern: m2/NIA_SL_WORD1_REAL*_F_morpheme.json'')]]
        empty_summary) =
     [''Unknown: Morpheme file not found with pattern: m2/NIA_SL_WORD1_REAL*_F_morpheme.json'']"
proof -
  let ?msg = "''Morpheme file not found with pattern: m2/NIA_SL_WORD1_REAL*_F_morpheme.json''"
  have run: "fst (process_sign_folder (example_fs 0 1 1) ''k/WORD1_F'' ''m2'' ''out'' False) =
               Inr [(''error'', VStr ?msg)]"
    by code_simp
  have key: "map_of [(''error'', VStr ?msg)] ''error'' = Some (VStr ?msg)" by simp
  have nonempty: "?msg \<noteq> []" by simp
  from error_outcome_names_no_folder [OF run key nonempty] run show ?thesis by simp
qed

section \<open>Properties of the Dataset Orchestrator's dispatch\<close>

subsection \<open>Which executor runs the tasks\<close>

lemma process_tasks_dry_run:
  "process_tasks fs use_multiprocessing True num_workers cpu_count folders =
     SequentialRun
       (run_sequential fs (map (\<lambda>(kf, mf, ob). (kf, mf, ob, True)) folders) [])"
  by (simp add: process_tasks_def select_executor_def)

lemma process_tasks_pool:
  "(\<exists>n tasks. process_tasks fs use_multiprocessing dry_run num_workers cpu_count folders =
                PoolRun n tasks) = (use_multiprocessing \<and> \<not> dry_run)"
  by (auto simp: process_tasks_def select_executor_def Let_def)

subsection \<open>The sequential loop\<close>

lemma process_sign_folder_dry_unchanged: "snd (process_sign_folder fs kf mf ob True) = fs"
  by (cases "folder_inputs fs kf mf")
     (auto simp: process_sign_folder_def trim_folder_dry_unchanged)

lemma run_sequential_raise:
  assumes "process_single_folder_wrapper fs task = (Inl err, fs')"
  shows "run_sequential fs (task # tasks) results = (Inl err, fs')"
  using assms by simp

lemma run_sequential_length:
  "run_sequential fs tasks results = (Inr rs, fs') \<Longrightarrow>
   length rs = length results + length tasks"
proof (induction tasks arbitrary: fs results)
  case Nil
  then show ?case by simp
next
  case (Cons task tasks)
  then show ?case
    by (auto split: prod.splits sum.splits)
qed

lemma run_sequential_dry_all:
  assumes "list_all (\<lambda>(kf, mf, ob). \<exists>r. fst (process_sign_folder fs kf mf ob True) = Inr r)
             folders"
  shows "run_sequential fs (map (\<lambda>(kf, mf, ob). (kf, mf, ob, True)) folders) results =
           (Inr (results @
                 map (\<lambda>(kf, mf, ob). projr (fst (process_sign_folder fs kf mf ob True)))
                   folders), fs)"
  using assms
proof (induction folders arbitrary: results)
  case Nil
  then show ?case by simp
next
  case (Cons folder folders)
  obtain kf mf ob where folder: "folder = (kf, mf, ob)" by (cases folder)
  from Cons.prems folder obtain r where r: "fst (process_sign_folder fs kf mf ob True) = Inr r"
    by auto
  with process_sign_folder_dry_unchanged [of fs kf mf ob]
  have "process_sign_folder fs kf mf ob True = (Inr r, fs)"
    by (metis prod.collapse)
  moreover from Cons.prems have "list_all (\<lambda>(kf, mf, ob). \<exists>r. fst (process_sign_folder fs kf mf ob True) = Inr r)
             folders" by simp
  ultimately show ?case
    using Cons.IH [of "results @ [r]"] r folder
    by (simp add: process_single_folder_wrapper_def)
qed

text \<open>
  Claim C9 fails on the code.  The choice of the executor is as the claim says (lemmas
  \<open>process_tasks_dry_run\<close> and \<open>process_tasks_pool\<close>): with \<open>dry_run\<close> true the tasks go
  through the sequential loop even with \<open>use_multiprocessing\<close> true and four workers
  configured, and the pool is used exactly when \<open>use_multiprocessing\<close> is true and
  \<open>dry_run\<close> is false.  But the loop does not execute all jobs: the dry run of a folder
  whose metadata has \<open>duration = 0\<close> raises \<open>ZeroDivisionError\<close> out of
  \<open>process_sign_folder\<close>, the exception ends the loop, and the job after it never runs.
  With a duration of one second both jobs run, in order.
\<close>

theorem dry_run_loop_ends_at_exception:
  "process_tasks (example_fs 0 1 0) True True (Some 4) 8
     [(''k/WORD1_F'', ''m'', ''out''), (''k/WORD2_F'', ''m'', ''out'')] =
     SequentialRun (Inl ZeroDivisionError, example_fs 0 1 0) \<and>
   process_tasks (example_fs 0 1 1) True True (Some 4) 8
     [(''k/WORD1_F'', ''m'', ''out''), (''k/WORD2_F'', ''m'', ''out'')] =
     SequentialRun
       (Inr [success_result ''WORD1_F'' 2 0 1 (JNum 0) (JNum 1),
             [(''error'',
               VStr ''Morpheme file not found with pattern: m/NIA_SL_WORD2_REAL*_F_morpheme.json'')]],
        example_fs 0 1 1) \<and>
   process_tasks (example_fs 0 1 0) True False (Some 4) 8
     [(''k/WORD1_F'', ''m'', ''out''), (''k/WORD2_F'', ''m'', ''out'')] =
     PoolRun 4 [(''k/WORD1_F'', ''m'', ''out'', False), (''k/WORD2_F'', ''m'', ''out'', False)]"
proof (intro conjI)
  show "process_tasks (example_fs 0 1 0) True True (Some 4) 8
          [(''k/WORD1_F'', ''m'', ''out''), (''k/WORD2_F'', ''m'', ''out'')] =
          SequentialRun (Inl ZeroDivisionError, example_fs 0 1 0)"
    by code_simp
  show "process_tasks (example_fs 0 1 1) True True (Some 4) 8
          [(''k/WORD1_F'', ''m'', ''out''), (''k/WORD2_F'', ''m'', ''out'')] =
          SequentialRun
            (Inr [success_result ''WORD1_F'' 2 0 1 (JNum 0) (JNum 1),
                  [(''error'',
                    VStr ''Morpheme file not found with pattern: m/NIA_SL_WORD2_REAL*_F_morpheme.json'')]],
             example_fs 0 1 1)"
    by code_simp
  show "process_tasks (example_fs 0 1 0) True False (Some 4) 8
          [(''k/WORD1_F'', ''m'', ''out''), (''k/WORD2_F'', ''m'', ''out'')] =
          PoolRun 4 [(''k/WORD1_F'', ''m'', ''out'', False), (''k/WORD2_F'', ''m'', ''out'', False)]"
    by code_simp
qed

text \<open>
  Claim C7, as the code has it.  When the worker pool is used, \<open>mp.Pool\<close> receives the
  configured worker count itself when one is configured (the core count puts no cap on
  it), and \<open>max(1, cpu_count - 1)\<close> when none is configured.
\<close>

theorem worker_pool_size:
  assumes "select_executor use_multiprocessing dry_run num_workers cpu_count = WorkerPool k"
  shows "k = (case num_workers of None \<Rightarrow> max 1 (cpu_count - 1) | Some n \<Rightarrow> n)"
  using assms by (simp add: select_executor_def Let_def split: if_splits)

theorem worker_pool_size_witness:
  "select_executor True False (Some 8) 4 = WorkerPool 8 \<and>
   (8::int) = (case Some 8 of None \<Rightarrow> max 1 (4 - 1) | Some n \<Rightarrow> n)"
proof -
  have sel: "select_executor True False (Some 8) 4 = WorkerPool 8"
    by (simp add: select_executor_def)
  from worker_pool_size [OF sel] sel show ?thesis by simp
qed

text \<open>
  The claim as stated fails: with eight workers configured on a machine of four cores the
  pool has eight processes, not \<open>min(8, 4 - 1) = 3\<close>.
\<close>

theorem worker_pool_not_capped:
  "select_executor True False (Some 8) 4 = WorkerPool 8 \<and>
   select_executor True False (Some 8) 4 \<noteq> WorkerPool (min 8 (4 - 1)) \<and>
   pool_processes 8 = Inr 8"
  by (simp add: select_executor_def pool_processes_def)


end
